theory Spec2Isabelle
  imports Main "HOL-Library.Word" "HOL-Library.AList"
begin

section \<open>Python values and exceptions\<close>

text \<open>
  The values that \<^verbatim>\<open>json.loads\<close> and \<^verbatim>\<open>MessageToDict\<close> produce: \<^verbatim>\<open>None\<close>, booleans,
  integers, floats (an IEEE double, kept as its 64 bits), strings, lists and dicts.
  A dict is the list of its items in insertion order; its keys are strings and distinct.
  A string is held as the bytes of its UTF-8 encoding, so a character outside ASCII
  takes several bytes; a lone surrogate, which \<^verbatim>\<open>json.loads\<close> builds from an escape
  such as \<^verbatim>\<open>\ud800\<close>, is held as the three bytes that encoding would give it: ED, a
  byte from A0 to BF, and a byte from 80 to BF.
\<close>

datatype json =
    JNull
  | JBool bool
  | JInt int
  | JFloat "64 word"
  | JStr string
  | JArr "json list"
  | JObj "(string \<times> json) list"

text \<open>
  A raised exception: the names of the classes of its type, most specific first
  (\<^verbatim>\<open>type(e).__mro__\<close> without \<^verbatim>\<open>object\<close>), and \<^verbatim>\<open>str(e)\<close>. An \<^verbatim>\<open>except C\<close> clause
  catches it when \<^verbatim>\<open>C\<close> is among these classes.
\<close>

datatype py_exc = PyExc (mro: "string list") (str_of: string)

definition isinstance :: "py_exc \<Rightarrow> string \<Rightarrow> bool" where
  "isinstance e c = (c \<in> set (mro e))"

definition KeyError :: "string \<Rightarrow> py_exc" where
  "KeyError s = PyExc [''KeyError'', ''LookupError'', ''Exception'', ''BaseException''] s"

definition IndexError :: "string \<Rightarrow> py_exc" where
  "IndexError s = PyExc [''IndexError'', ''LookupError'', ''Exception'', ''BaseException''] s"

definition TypeError :: "string \<Rightarrow> py_exc" where
  "TypeError s = PyExc [''TypeError'', ''Exception'', ''BaseException''] s"

definition NameError :: "string \<Rightarrow> py_exc" where
  "NameError s = PyExc [''NameError'', ''Exception'', ''BaseException''] s"

definition JSONDecodeError :: "string \<Rightarrow> py_exc" where
  "JSONDecodeError s = PyExc [''JSONDecodeError'', ''ValueError'', ''Exception'', ''BaseException''] s"

definition ValueError :: "string \<Rightarrow> py_exc" where
  "ValueError s = PyExc [''ValueError'', ''Exception'', ''BaseException''] s"

definition UnicodeEncodeError :: "string \<Rightarrow> py_exc" where
  "UnicodeEncodeError s =
     PyExc [''UnicodeEncodeError'', ''UnicodeError'', ''ValueError'', ''Exception'',
            ''BaseException''] s"

definition KeyboardInterrupt :: py_exc where
  "KeyboardInterrupt = PyExc [''KeyboardInterrupt'', ''BaseException''] []"

definition quoted :: "string \<Rightarrow> string" where
  "quoted s = CHR 0x27 # s @ [CHR 0x27]"

fun type_name :: "json \<Rightarrow> string" where
  "type_name JNull = ''NoneType''"
| "type_name (JBool b) = ''bool''"
| "type_name (JInt i) = ''int''"
| "type_name (JFloat f) = ''float''"
| "type_name (JStr s) = ''str''"
| "type_name (JArr xs) = ''list''"
| "type_name (JObj kvs) = ''dict''"

text \<open>
  \<^verbatim>\<open>v[k]\<close> for a string literal \<^verbatim>\<open>k\<close>. Only a dict can be subscripted by a string; a
  missing key raises KeyError, whose text is \<^verbatim>\<open>repr(k)\<close> (the key between single quotes,
  for the plain keys this program uses).
\<close>

fun py_getitem_key :: "json \<Rightarrow> string \<Rightarrow> py_exc + json" where
  "py_getitem_key (JObj kvs) k =
     (case map_of kvs k of Some x \<Rightarrow> Inr x | None \<Rightarrow> Inl (KeyError (quoted k)))"
| "py_getitem_key (JArr xs) k =
     Inl (TypeError ''list indices must be integers or slices, not str'')"
| "py_getitem_key (JStr s) k =
     Inl (TypeError (''string indices must be integers, not '' @ quoted ''str''))"
| "py_getitem_key v k =
     Inl (TypeError (quoted (type_name v) @ '' object is not subscriptable''))"

text \<open>
  The characters of a string: each byte that starts a character, with the continuation
  bytes (80 to BF) that follow it.
\<close>

definition continuation :: "char \<Rightarrow> bool" where
  "continuation c = (0x80 \<le> (of_char c :: nat) \<and> (of_char c :: nat) \<le> 0xBF)"

function code_points :: "string \<Rightarrow> string list" where
  "code_points [] = []"
| "code_points (c # cs) =
     (c # takeWhile continuation cs) # code_points (dropWhile continuation cs)"
  by pat_completeness auto
termination
  by (relation "measure length") (auto simp: less_Suc_eq_le length_dropWhile_le)

text \<open>
  \<^verbatim>\<open>v[0]\<close>. A list or a string gives its first element, IndexError when empty; a dict
  with string keys has no key \<^verbatim>\<open>0\<close>.
\<close>

fun py_getitem_0 :: "json \<Rightarrow> py_exc + json" where
  "py_getitem_0 (JArr []) = Inl (IndexError ''list index out of range'')"
| "py_getitem_0 (JArr (x # xs)) = Inr x"
| "py_getitem_0 (JStr []) = Inl (IndexError ''string index out of range'')"
| "py_getitem_0 (JStr (c # s)) = Inr (JStr (c # takeWhile continuation s))"
| "py_getitem_0 (JObj kvs) = Inl (KeyError ''0'')"
| "py_getitem_0 v = Inl (TypeError (quoted (type_name v) @ '' object is not subscriptable''))"

text \<open>
  The elements that \<^verbatim>\<open>for x in v\<close> visits: the elements of a list, the keys of a dict,
  the characters of a string; anything else is not iterable.
\<close>

fun py_iter :: "json \<Rightarrow> py_exc + json list" where
  "py_iter (JArr xs) = Inr xs"
| "py_iter (JObj kvs) = Inr (map (\<lambda>kv. JStr (fst kv)) kvs)"
| "py_iter (JStr s) = Inr (map JStr (code_points s))"
| "py_iter v = Inl (TypeError (quoted (type_name v) @ '' object is not iterable''))"

text \<open>\<^verbatim>\<open>v + '\n'\<close>: defined for a string only.\<close>

fun py_add_newline :: "json \<Rightarrow> py_exc + string" where
  "py_add_newline (JStr s) = Inr (s @ [CHR 0x0A])"
| "py_add_newline (JArr xs) =
     Inl (TypeError (''can only concatenate list (not '' @ [CHR 0x22] @ ''str'' @ [CHR 0x22] @ '') to list''))"
| "py_add_newline v =
     Inl (TypeError (''unsupported operand type(s) for +: '' @ quoted (type_name v)
                     @ '' and '' @ quoted ''str''))"

text \<open>
  \<^verbatim>\<open>json.loads\<close>. The decoder itself is a parameter: a function from the text to the
  parsed value, or to the text of the decoding error, which is raised as
  \<^verbatim>\<open>json.JSONDecodeError\<close>, a subclass of \<^verbatim>\<open>ValueError\<close>.
\<close>

type_synonym decoder = "string \<Rightarrow> string + json"

definition json_loads :: "decoder \<Rightarrow> string \<Rightarrow> py_exc + json" where
  "json_loads loads s = (case loads s of Inl msg \<Rightarrow> Inl (JSONDecodeError msg) | Inr v \<Rightarrow> Inr v)"

section \<open>process_deep_research_response\<close>

definition heading :: string where
  "heading = ''# Reserach Plan'' @ [CHR 0x0A]"

text \<open>\<^verbatim>\<open>reply['groundedContent']['content']['text']\<close>\<close>

definition model_text :: "json \<Rightarrow> py_exc + json" where
  "model_text reply =
     (case py_getitem_key reply ''groundedContent'' of
        Inl e \<Rightarrow> Inl e
      | Inr grounded \<Rightarrow>
          (case py_getitem_key grounded ''content'' of
             Inl e \<Rightarrow> Inl e
           | Inr content \<Rightarrow> py_getitem_key content ''text''))"

text \<open>
  The inner loop over the replies of one row. \<^verbatim>\<open>raw_text\<close> is threaded through; an
  exception leaves the loop with the text accumulated so far.
\<close>

fun replies_loop :: "json list \<Rightarrow> string \<Rightarrow> py_exc option \<times> string" where
  "replies_loop [] raw_text = (None, raw_text)"
| "replies_loop (reply # replies) raw_text =
     (case model_text reply of
        Inl e \<Rightarrow> (Some e, raw_text)
      | Inr mt \<Rightarrow>
          (case py_add_newline mt of
             Inl e \<Rightarrow> (Some e, raw_text)
           | Inr s \<Rightarrow> replies_loop replies (raw_text @ s)))"

text \<open>\<^verbatim>\<open>row['answer']['replies']\<close>\<close>

definition row_replies :: "json \<Rightarrow> py_exc + json" where
  "row_replies row =
     (case py_getitem_key row ''answer'' of
        Inl e \<Rightarrow> Inl e
      | Inr answer \<Rightarrow> py_getitem_key answer ''replies'')"

text \<open>The body of the \<^verbatim>\<open>try\<close> for one row.\<close>

definition try_row :: "json \<Rightarrow> string \<Rightarrow> py_exc option \<times> string" where
  "try_row row raw_text =
     (case row_replies row of
        Inl e \<Rightarrow> (Some e, raw_text)
      | Inr replies \<Rightarrow>
          (case py_iter replies of
             Inl e \<Rightarrow> (Some e, raw_text)
           | Inr rs \<Rightarrow> replies_loop rs raw_text))"

text \<open>The outer loop: the bare \<^verbatim>\<open>except: continue\<close> drops the exception of a row.\<close>

fun rows_loop :: "json list \<Rightarrow> string \<Rightarrow> string" where
  "rows_loop [] raw_text = raw_text"
| "rows_loop (row # rows) raw_text = rows_loop rows (snd (try_row row raw_text))"

definition process_deep_research_response :: "decoder \<Rightarrow> string \<Rightarrow> py_exc + string" where
  "process_deep_research_response loads text =
     (case json_loads loads text of
        Inl e \<Rightarrow> Inl e
      | Inr text_json \<Rightarrow>
          (case py_iter text_json of
             Inl e \<Rightarrow> Inl e
           | Inr rows \<Rightarrow> Inr (rows_loop rows heading)))"

text \<open>The fragments that a list of reply texts adds: each text followed by a newline.\<close>

definition fragments :: "string list \<Rightarrow> string" where
  "fragments ts = concat (map (\<lambda>t. t @ [CHR 0x0A]) ts)"

section \<open>Errors of the tools\<close>

text \<open>
  The error types of the \<^verbatim>\<open>mcp\<close> package, which the module imports. \<^verbatim>\<open>INVALID_PARAMS\<close>
  and \<^verbatim>\<open>INTERNAL_ERROR\<close> are its two error codes that the module uses. \<^verbatim>\<open>ErrorData\<close> is
  a pydantic model with the fields \<^verbatim>\<open>code\<close> and \<^verbatim>\<open>message\<close>: a value of it is built by
  \<^verbatim>\<open>ErrorData(code=..., message=...)\<close>.
\<close>

datatype error_code = INVALID_PARAMS | INTERNAL_ERROR

datatype ErrorData = ErrorData (code: error_code) (message: string)

text \<open>
  \<^verbatim>\<open>ErrorData(code, message)\<close>, with positional arguments, as the handlers of the module
  write it. The constructor of a pydantic model takes keyword arguments only
  (\<^verbatim>\<open>__init__(self, /, **data)\<close>), so this call raises TypeError and builds nothing.
\<close>

definition ErrorData_positional :: "error_code \<Rightarrow> string \<Rightarrow> py_exc + ErrorData" where
  "ErrorData_positional c m =
     Inl (TypeError ''BaseModel.__init__() takes 1 positional argument but 3 were given'')"

text \<open>
  What leaves a function as an exception: an \<^verbatim>\<open>McpError\<close> built by one of its
  \<^verbatim>\<open>except\<close> clauses, or any other exception.
\<close>

datatype raised = McpError ErrorData | Uncaught py_exc

text \<open>
  The two handlers that close the \<^verbatim>\<open>try\<close> of each tool, in their order:
  \<^verbatim>\<open>except ValueError\<close>, then \<^verbatim>\<open>except Exception\<close>. An exception that is neither
  (\<^verbatim>\<open>KeyboardInterrupt\<close>, \<^verbatim>\<open>SystemExit\<close>) propagates. Each handler evaluates
  \<^verbatim>\<open>ErrorData(CODE, text)\<close> before it can raise the \<^verbatim>\<open>McpError\<close>; an exception raised
  there, inside the handler, is not caught by the other clause and leaves the tool.
\<close>

definition tool_except :: "py_exc \<Rightarrow> raised" where
  "tool_except e =
     (if isinstance e ''ValueError'' then
        (case ErrorData_positional INVALID_PARAMS (str_of e) of
           Inl raised_in_handler \<Rightarrow> Uncaught raised_in_handler
         | Inr error_data \<Rightarrow> McpError error_data)
      else if isinstance e ''Exception'' then
        (case ErrorData_positional INTERNAL_ERROR (''Unexpected error: '' @ str_of e) of
           Inl raised_in_handler \<Rightarrow> Uncaught raised_in_handler
         | Inr error_data \<Rightarrow> McpError error_data)
      else Uncaught e)"

section \<open>The requests\<close>

record SnippetSpec =
  return_snippet :: bool

record ModelPromptSpec =
  preamble :: "string option"

record ModelSpec =
  version :: string

record SummarySpec =
  summary_result_count :: int
  include_citations :: bool
  ignore_adversarial_query :: bool
  ignore_non_summary_seeking_query :: bool
  model_prompt_spec :: ModelPromptSpec
  model_spec :: ModelSpec

record ExtractiveContentSpec =
  max_extractive_segment_count :: int
  max_extractive_answer_count :: int
  return_extractive_segment_score :: bool

record ContentSearchSpec =
  snippet_spec :: SnippetSpec
  summary_spec :: SummarySpec
  extractive_content_spec :: ExtractiveContentSpec

datatype Condition = CONDITION_UNSPECIFIED | DISABLED | Condition_AUTO

datatype Mode = MODE_UNSPECIFIED | SUGGESTION_ONLY | Mode_AUTO

record SearchRequest =
  sr_serving_config :: string
  sr_query :: string
  sr_page_size :: int
  sr_content_search_spec :: ContentSearchSpec
  sr_query_expansion_spec :: Condition
  sr_spell_correction_spec :: Mode

datatype QueryClassificationType = ADVERSARIAL_QUERY | NON_ANSWER_SEEKING_QUERY

record QueryUnderstandingSpec =
  qu_rephraser_disable :: bool
  qu_max_rephrase_steps :: int
  qu_classification_types :: "QueryClassificationType list"

record AnswerGenerationSpec =
  ag_ignore_adversarial_query :: bool
  ag_ignore_non_answer_seeking_query :: bool
  ag_ignore_low_relevant_content :: bool
  ag_model_version :: string
  ag_preamble :: string
  ag_include_citations :: bool
  ag_answer_language_code :: string

record AnswerQueryRequest =
  aq_serving_config :: string
  aq_query :: string
  aq_session :: "string option"
  aq_query_understanding_spec :: QueryUnderstandingSpec
  aq_answer_generation_spec :: AnswerGenerationSpec

text \<open>
  The call of \<^verbatim>\<open>requests.post\<close> with its \<^verbatim>\<open>url\<close>, \<^verbatim>\<open>data\<close> and \<^verbatim>\<open>headers\<close>: the data is the dict that \<^verbatim>\<open>json.dumps\<close> writes out,
  so the body has a key exactly when the dict has it.
\<close>

record http_request =
  post_url :: string
  post_data :: json
  post_headers :: "(string \<times> string) list"

section \<open>The services behind the tools\<close>

text \<open>
  Everything outside the process, as the outcome of each call: the value returned or
  the exception raised.
  \<^item> \<open>credentials\<close>: \<^verbatim>\<open>google.auth.default()\<close> and \<^verbatim>\<open>creds.refresh\<close>, giving the token;
  \<^item> \<open>http_post\<close>: \<^verbatim>\<open>requests.post\<close>, giving the \<^verbatim>\<open>text\<close> of the response;
  \<^item> \<open>new_search_client\<close>, \<open>new_answer_client\<close>: the client constructors, given the
    endpoint of the client options;
  \<^item> \<open>client_search\<close>: \<^verbatim>\<open>client.search\<close>, giving for each result of the response its
    document as \<^verbatim>\<open>MessageToDict\<close> renders it;
  \<^item> \<open>answer_query\<close>: \<^verbatim>\<open>client.answer_query\<close>, giving \<^verbatim>\<open>response.answer.answer_text\<close>.
\<close>

record backend =
  credentials :: "py_exc + string"
  http_post :: "http_request \<Rightarrow> py_exc + string"
  new_search_client :: "string option \<Rightarrow> py_exc option"
  client_search :: "SearchRequest \<Rightarrow> py_exc + json list"
  new_answer_client :: "string option \<Rightarrow> py_exc option"
  answer_query :: "AnswerQueryRequest \<Rightarrow> py_exc + string"

text \<open>
  The state of the process that the tools touch: \<^verbatim>\<open>os.environ\<close>, and the requests
  handed to \<^verbatim>\<open>requests.post\<close> so far.
\<close>

record world =
  environ :: "string \<rightharpoonup> string"
  posted :: "http_request list"

definition get_auth_header :: "backend \<Rightarrow> py_exc + (string \<times> string) list" where
  "get_auth_header b =
     (case credentials b of
        Inl e \<Rightarrow> Inl e
      | Inr token \<Rightarrow>
          Inr [(''Authorization'', ''Bearer '' @ token),
               (''Content-Type'', ''application/json; charset=UTF-8'')])"

section \<open>get_search_response\<close>

text \<open>
  \<^verbatim>\<open>response.results[0]\<close>: the repeated field raises IndexError when it is empty (the
  text of the error is the container's; a list's is used here).
\<close>

fun results_getitem_0 :: "json list \<Rightarrow> py_exc + json" where
  "results_getitem_0 [] = Inl (IndexError ''list index out of range'')"
| "results_getitem_0 (r # rs) = Inr r"

definition search_request :: "string \<Rightarrow> SearchRequest" where
  "search_request search_query =
     (let project_id = ''the-foo-bar'';
          location = ''global'';
          engine_id = ''cymbal-bank_1746202630648'';
          prompt_preamble = None;
          serving_config = ''projects/'' @ project_id @ ''/locations/'' @ location
            @ ''/collections/default_collection/engines/'' @ engine_id
            @ ''/servingConfigs/default_config'';
          content_search_spec = \<lparr>
            snippet_spec = \<lparr>return_snippet = True\<rparr>,
            summary_spec = \<lparr>
              summary_result_count = 5,
              include_citations = True,
              ignore_adversarial_query = True,
              ignore_non_summary_seeking_query = True,
              model_prompt_spec = \<lparr>preamble = prompt_preamble\<rparr>,
              model_spec = \<lparr>version = ''stable''\<rparr>\<rparr>,
            extractive_content_spec = \<lparr>
              max_extractive_segment_count = 2,
              max_extractive_answer_count = 2,
              return_extractive_segment_score = True\<rparr>\<rparr>
      in \<lparr>sr_serving_config = serving_config,
          sr_query = search_query,
          sr_page_size = 10,
          sr_content_search_spec = content_search_spec,
          sr_query_expansion_spec = Condition_AUTO,
          sr_spell_correction_spec = Mode_AUTO\<rparr>)"

text \<open>The body of the \<^verbatim>\<open>try\<close>.\<close>

definition search_try :: "backend \<Rightarrow> string \<Rightarrow> py_exc + json" where
  "search_try b search_query =
     (let location = ''global'';
          client_options =
            (if location \<noteq> ''global'' then Some (location @ ''-discoveryengine.googleapis.com'')
             else None)
      in case new_search_client b client_options of
           Some e \<Rightarrow> Inl e
         | None \<Rightarrow>
             (case client_search b (search_request search_query) of
                Inl e \<Rightarrow> Inl e
              | Inr results \<Rightarrow>
                  (case results_getitem_0 results of
                     Inl e \<Rightarrow> Inl e
                   | Inr document_dict \<Rightarrow>
                       (case py_getitem_key document_dict ''derived_struct_data'' of
                          Inl e \<Rightarrow> Inl e
                        | Inr derived \<Rightarrow>
                            (case py_getitem_key derived ''extractive_answers'' of
                               Inl e \<Rightarrow> Inl e
                             | Inr answers \<Rightarrow>
                                 (case py_getitem_0 answers of
                                    Inl e \<Rightarrow> Inl e
                                  | Inr answer \<Rightarrow> py_getitem_key answer ''content''))))))"

definition get_search_response :: "backend \<Rightarrow> string \<Rightarrow> raised + json" where
  "get_search_response b search_query =
     (case search_try b search_query of
        Inl e \<Rightarrow> Inl (tool_except e)
      | Inr content \<Rightarrow> Inr content)"

section \<open>get_deep_research_response\<close>

text \<open>
  The dict of the request. A stored session is added only when no new session is asked
  for and \<^verbatim>\<open>os.environ.get("SESSION")\<close> is truthy: set, and not the empty string.
\<close>

definition stream_assist_request :: "(string \<rightharpoonup> string) \<Rightarrow> string \<Rightarrow> bool \<Rightarrow> (string \<times> json) list" where
  "stream_assist_request env query start_new_session =
     (let request = [(''query'', JObj [(''text'', JStr query)]),
                     (''answerGenerationMode'', JStr ''research'')]
      in if start_new_session = False then
           (case env ''SESSION'' of
              None \<Rightarrow> request
            | Some session \<Rightarrow>
                (if session \<noteq> [] then AList.update ''session'' (JStr session) request
                 else request))
         else request)"

definition deep_research_request ::
  "(string \<rightharpoonup> string) \<Rightarrow> (string \<times> string) list \<Rightarrow> string \<Rightarrow> bool \<Rightarrow> http_request" where
  "deep_research_request env auth_header query start_new_session =
     (let project_id = ''the-foo-bar'';
          location = ''global'';
          engine_id = ''cymbal-bank_1746202630648'';
          assistant_id = ''default_assistant''
      in \<lparr>post_url = ''https://discoveryengine.googleapis.com/v1alpha/projects/'' @ project_id
                 @ ''/locations/'' @ location @ ''/collections/default_collection/engines/''
                 @ engine_id @ ''/assistants/'' @ assistant_id @ '':streamAssist'',
          post_data = JObj (stream_assist_request env query start_new_session),
          post_headers = AList.update ''X-Goog-User-Project'' project_id auth_header\<rparr>)"

text \<open>
  \<^verbatim>\<open>os.environ[k] = v\<close>. The value must be a string (TypeError otherwise). It is then
  encoded with the \<^verbatim>\<open>surrogateescape\<close> error handler, which writes the surrogates
  U+DC80 to U+DCFF (second byte B2 or B3) as single bytes and raises UnicodeEncodeError
  on any other surrogate; the text of that error also names the codec and the position,
  of which only the end is kept here. Last, \<^verbatim>\<open>putenv\<close> raises ValueError on a NUL
  character. Both are ValueErrors, and the variable keeps its value when one is raised.
\<close>

fun unencodable_surrogate :: "string \<Rightarrow> bool" where
  "unencodable_surrogate (a # b # cs) =
     ((a = CHR 0xED \<and> 0xA0 \<le> (of_char b :: nat) \<and> (of_char b :: nat) \<le> 0xBF
         \<and> b \<noteq> CHR 0xB2 \<and> b \<noteq> CHR 0xB3)
      \<or> unencodable_surrogate (b # cs))"
| "unencodable_surrogate cs = False"

fun environ_setitem :: "(string \<rightharpoonup> string) \<Rightarrow> string \<Rightarrow> json \<Rightarrow> py_exc + (string \<rightharpoonup> string)" where
  "environ_setitem env k (JStr s) =
     (if unencodable_surrogate s then Inl (UnicodeEncodeError ''surrogates not allowed'')
      else if CHR 0x00 \<in> set s then Inl (ValueError ''embedded null byte'')
      else Inr (env(k \<mapsto> s)))"
| "environ_setitem env k v = Inl (TypeError (''str expected, not '' @ type_name v))"

text \<open>
  \<^verbatim>\<open>session = result_json[0]['sessionInfo']['session']\<close> and
  \<^verbatim>\<open>os.environ['SESSION'] = session\<close>.
\<close>

definition store_session :: "json \<Rightarrow> (string \<rightharpoonup> string) \<Rightarrow> py_exc + (string \<rightharpoonup> string)" where
  "store_session result_json env =
     (case py_getitem_0 result_json of
        Inl e \<Rightarrow> Inl e
      | Inr first \<Rightarrow>
          (case py_getitem_key first ''sessionInfo'' of
             Inl e \<Rightarrow> Inl e
           | Inr session_info \<Rightarrow>
               (case py_getitem_key session_info ''session'' of
                  Inl e \<Rightarrow> Inl e
                | Inr session \<Rightarrow> environ_setitem env ''SESSION'' session)))"

text \<open>The body of the \<^verbatim>\<open>try\<close>: its result or exception, and the state it leaves.\<close>

definition deep_research_try ::
  "decoder \<Rightarrow> backend \<Rightarrow> string \<Rightarrow> bool \<Rightarrow> world \<Rightarrow> (py_exc + string) \<times> world" where
  "deep_research_try loads b query start_new_session w =
     (case get_auth_header b of
        Inl e \<Rightarrow> (Inl e, w)
      | Inr auth_header \<Rightarrow>
          (let request = deep_research_request (environ w) auth_header query start_new_session;
               w1 = w\<lparr>posted := posted w @ [request]\<rparr>
           in case http_post b request of
                Inl e \<Rightarrow> (Inl e, w1)
              | Inr text \<Rightarrow>
                  (case json_loads loads text of
                     Inl e \<Rightarrow> (Inl e, w1)
                   | Inr result_json \<Rightarrow>
                       (if start_new_session = True then
                          (case store_session result_json (environ w1) of
                             Inl e \<Rightarrow> (Inl e, w1)
                           | Inr env \<Rightarrow>
                               (process_deep_research_response loads text, w1\<lparr>environ := env\<rparr>))
                        else (process_deep_research_response loads text, w1)))))"

definition get_deep_research_response ::
  "decoder \<Rightarrow> backend \<Rightarrow> string \<Rightarrow> bool \<Rightarrow> world \<Rightarrow> (raised + string) \<times> world" where
  "get_deep_research_response loads b query start_new_session w =
     (case deep_research_try loads b query start_new_session w of
        (Inl e, w') \<Rightarrow> (Inl (tool_except e), w')
      | (Inr markdown_text, w') \<Rightarrow> (Inr markdown_text, w'))"

section \<open>get_answer_response\<close>

text \<open>
  The function reads \<^verbatim>\<open>location\<close>, \<^verbatim>\<open>project_id\<close> and \<^verbatim>\<open>engine_id\<close>, which are not among
  its parameters, so they are looked up among the globals of the module; a name that is
  not bound there raises NameError. The body is not inside a \<^verbatim>\<open>try\<close>.
\<close>

definition load_global :: "(string \<rightharpoonup> string) \<Rightarrow> string \<Rightarrow> py_exc + string" where
  "load_global globals name =
     (case globals name of
        None \<Rightarrow> Inl (NameError (''name '' @ quoted name @ '' is not defined''))
      | Some v \<Rightarrow> Inr v)"

definition answer_request :: "string \<Rightarrow> string \<Rightarrow> AnswerQueryRequest" where
  "answer_request serving_config query =
     \<lparr>aq_serving_config = serving_config,
      aq_query = query,
      aq_session = None,
      aq_query_understanding_spec = \<lparr>
        qu_rephraser_disable = False,
        qu_max_rephrase_steps = 1,
        qu_classification_types = [ADVERSARIAL_QUERY, NON_ANSWER_SEEKING_QUERY]\<rparr>,
      aq_answer_generation_spec = \<lparr>
        ag_ignore_adversarial_query = False,
        ag_ignore_non_answer_seeking_query = False,
        ag_ignore_low_relevant_content = False,
        ag_model_version = ''gemini-2.0-flash-001/answer_gen/v1'',
        ag_preamble = ''Give a detailed answer.'',
        ag_include_citations = True,
        ag_answer_language_code = ''en''\<rparr>\<rparr>"

definition answer_body :: "(string \<rightharpoonup> string) \<Rightarrow> backend \<Rightarrow> string \<Rightarrow> py_exc + string" where
  "answer_body globals b query =
     (case load_global globals ''location'' of
        Inl e \<Rightarrow> Inl e
      | Inr location \<Rightarrow>
          (let client_options =
                 (if location \<noteq> ''global''
                  then Some (location @ ''-discoveryengine.googleapis.com'') else None)
           in case new_answer_client b client_options of
                Some e \<Rightarrow> Inl e
              | None \<Rightarrow>
                  (case load_global globals ''project_id'' of
                     Inl e \<Rightarrow> Inl e
                   | Inr project_id \<Rightarrow>
                       (case load_global globals ''engine_id'' of
                          Inl e \<Rightarrow> Inl e
                        | Inr engine_id \<Rightarrow>
                            answer_query b
                              (answer_request
                                 (''projects/'' @ project_id @ ''/locations/'' @ location
                                  @ ''/collections/default_collection/engines/'' @ engine_id
                                  @ ''/servingConfigs/default_serving_config'')
                                 query)))))"

text \<open>
  The module binds none of the three names: in the two tools they are local variables,
  and here they are parameters that have been commented out.
\<close>

definition module_globals :: "string \<rightharpoonup> string" where
  "module_globals = Map.empty"

definition get_answer_response :: "backend \<Rightarrow> string \<Rightarrow> raised + string" where
  "get_answer_response b query =
     (case answer_body module_globals b query of
        Inl e \<Rightarrow> Inl (Uncaught e)
      | Inr answer_text \<Rightarrow> Inr answer_text)"

section \<open>Sample inputs\<close>

text \<open>
  \<^verbatim>\<open>row['answer']['replies'][0]['groundedContent']['content']['text']\<close>: the text of
  the first reply of a row.
\<close>

definition first_reply_text :: "json \<Rightarrow> py_exc + json" where
  "first_reply_text row =
     (case row_replies row of
        Inl e \<Rightarrow> Inl e
      | Inr replies \<Rightarrow>
          (case py_getitem_0 replies of
             Inl e \<Rightarrow> Inl e
           | Inr reply \<Rightarrow> model_text reply))"

text \<open>A reply with a given text, and a row with given replies, in the expected shape.\<close>

definition reply_with :: "string \<Rightarrow> json" where
  "reply_with t = JObj [(''groundedContent'', JObj [(''content'', JObj [(''text'', JStr t)])])]"

definition row_with :: "json list \<Rightarrow> json" where
  "row_with replies = JObj [(''answer'', JObj [(''replies'', JArr replies)])]"

text \<open>A decoder given by a table from texts to values; any other text does not parse.\<close>

definition decoder_of :: "(string \<times> json) list \<Rightarrow> decoder" where
  "decoder_of table s =
     (case map_of table s of
        Some v \<Rightarrow> Inr v
      | None \<Rightarrow> Inl ''Expecting value: line 1 column 1 (char 0)'')"

text \<open>
  Services whose credentials and client constructors succeed, with a fixed outcome of
  the HTTP call and of the search call.
\<close>

definition example_backend :: "py_exc + string \<Rightarrow> py_exc + json list \<Rightarrow> backend" where
  "example_backend post_result search_result =
     \<lparr>credentials = Inr ''token'',
      http_post = (\<lambda>request. post_result),
      new_search_client = (\<lambda>client_options. None),
      client_search = (\<lambda>request. search_result),
      new_answer_client = (\<lambda>client_options. None),
      answer_query = (\<lambda>request. Inr ''answer text'')\<rparr>"

definition example_answer :: json where
  "example_answer = JObj [(''pageNumber'', JStr ''3''), (''content'', JStr ''first answer'')]"

definition example_derived :: json where
  "example_derived =
     JObj [(''extractive_answers'',
            JArr [example_answer,
                  JObj [(''pageNumber'', JStr ''7''), (''content'', JStr ''second answer'')]])]"

definition example_document :: json where
  "example_document = JObj [(''id'', JStr ''doc-1''), (''derived_struct_data'', example_derived)]"

definition example_world :: world where
  "example_world = \<lparr>environ = [''SESSION'' \<mapsto> ''old-session''], posted = []\<rparr>"

definition fresh_world :: world where
  "fresh_world = \<lparr>environ = Map.empty, posted = []\<rparr>"

definition session_body :: json where
  "session_body =
     JArr [JObj [(''sessionInfo'', JObj [(''session'', JStr ''new-session'')])],
           row_with [reply_with ''plan'']]"






text \<open>A state in which \<^verbatim>\<open>SESSION\<close> is set to the empty string.\<close>

definition empty_session_world :: world where
  "empty_session_world = \<lparr>environ = [''SESSION'' \<mapsto> []], posted = []\<rparr>"

section \<open>Properties of the row extraction\<close>

lemma replies_loop_good:
  "list_all2 (\<lambda>r t. model_text r = Inr (JStr t)) rs ts \<Longrightarrow>
     replies_loop (rs @ rest) raw = replies_loop rest (raw @ fragments ts)"
  by (induction rs ts arbitrary: raw rule: list_all2_induct) (simp_all add: fragments_def)

lemma replies_loop_all_good:
  "list_all2 (\<lambda>r t. model_text r = Inr (JStr t)) rs ts \<Longrightarrow>
     replies_loop rs raw = (None, raw @ fragments ts)"
  using replies_loop_good [of rs ts "[]" raw] by simp

lemma rows_loop_append:
  "rows_loop (xs @ ys) raw = rows_loop ys (rows_loop xs raw)"
  by (induction xs arbitrary: raw) simp_all

lemma try_row_good:
  assumes "row_replies row = Inr (JArr rs)"
      and "list_all2 (\<lambda>r t. model_text r = Inr (JStr t)) rs ts"
  shows "try_row row raw = (None, raw @ fragments ts)"
  using assms by (simp add: try_row_def replies_loop_all_good)

lemma try_row_no_answer:
  assumes "map_of kvs ''answer'' = None"
  shows "snd (try_row (JObj kvs) raw) = raw"
  using assms by (simp add: try_row_def row_replies_def)

lemma process_array:
  "json_loads loads body = Inr (JArr rows) \<Longrightarrow>
     process_deep_research_response loads body = Inr (rows_loop rows heading)"
  by (simp add: process_deep_research_response_def)

lemma model_text_reply_with: "model_text (reply_with t) = Inr (JStr t)"
  by (simp add: model_text_def reply_with_def)

lemma model_text_missing_content:
  "model_text (JObj [(''groundedContent'', JObj [])]) = Inl (KeyError (quoted ''content''))"
  by (simp add: model_text_def)

lemma row_replies_row_with: "row_replies (row_with rs) = Inr (JArr rs)"
  by (simp add: row_replies_def row_with_def)

text \<open>
  Claim C7: in a body that is an array of one well-formed row and one row without the
  \<^verbatim>\<open>answer\<close> key, in either order, the output is the heading followed by exactly the
  fragments of the well-formed row; the other row adds nothing and nothing is raised.
\<close>

theorem malformed_row_skipped:
  assumes "loads body = Inr (JArr rows)"
      and "rows = [good, JObj kvs] \<or> rows = [JObj kvs, good]"
      and "row_replies good = Inr (JArr rs)"
      and "list_all2 (\<lambda>r t. model_text r = Inr (JStr t)) rs ts"
      and "map_of kvs ''answer'' = None"
  shows "process_deep_research_response loads body = Inr (heading @ fragments ts)"
  using assms
  by (auto simp: process_deep_research_response_def json_loads_def try_row_good try_row_no_answer)

theorem malformed_row_skipped_witness:
  "process_deep_research_response
     (decoder_of [(''body'', JArr [JObj [(''sessionInfo'', JNull)],
                                  row_with [reply_with ''alpha'', reply_with ''beta'']])])
     ''body''
   = Inr (heading @ ''alpha'' @ [CHR 0x0A] @ ''beta'' @ [CHR 0x0A])"
  using malformed_row_skipped
    [where loads = "decoder_of [(''body'', JArr [JObj [(''sessionInfo'', JNull)],
                                  row_with [reply_with ''alpha'', reply_with ''beta'']])]"
       and body = "''body''"
       and rows = "[JObj [(''sessionInfo'', JNull)],
                    row_with [reply_with ''alpha'', reply_with ''beta'']]"
       and good = "row_with [reply_with ''alpha'', reply_with ''beta'']"
       and kvs = "[(''sessionInfo'', JNull)]"
       and rs = "[reply_with ''alpha'', reply_with ''beta'']"
       and ts = "[''alpha'', ''beta'']"]
  by (simp add: decoder_of_def row_replies_row_with model_text_reply_with fragments_def)

text \<open>
  Claim C10: when the replies of a row are well-formed replies followed by a reply
  without the \<^verbatim>\<open>groundedContent.content.text\<close> path, the row adds the fragments of the
  well-formed prefix and nothing of the replies from the malformed one on; the rows
  before and after it are processed as usual.
\<close>

theorem row_keeps_prefix_before_malformed_reply:
  assumes "row_replies row = Inr (JArr (good @ bad # rest))"
      and "list_all2 (\<lambda>r t. model_text r = Inr (JStr t)) good ts"
      and "model_text bad = Inl e"
      and "loads body = Inr (JArr (before @ row # after))"
  shows "try_row row raw = (Some e, raw @ fragments ts)
       \<and> process_deep_research_response loads body
           = Inr (rows_loop after (rows_loop before heading @ fragments ts))"
  using assms
  by (simp add: try_row_def replies_loop_good rows_loop_append
        process_deep_research_response_def json_loads_def)

theorem row_keeps_prefix_before_malformed_reply_witness:
  "process_deep_research_response
     (decoder_of [(''body'',
        JArr [row_with [reply_with ''alpha'', JObj [(''groundedContent'', JObj [])],
                        reply_with ''beta''],
              row_with [reply_with ''gamma'']])])
     ''body''
   = Inr (heading @ ''alpha'' @ [CHR 0x0A] @ ''gamma'' @ [CHR 0x0A])"
  using row_keeps_prefix_before_malformed_reply
    [where row = "row_with [reply_with ''alpha'', JObj [(''groundedContent'', JObj [])],
                            reply_with ''beta'']"
       and good = "[reply_with ''alpha'']"
       and bad = "JObj [(''groundedContent'', JObj [])]"
       and rest = "[reply_with ''beta'']"
       and ts = "[''alpha'']"
       and e = "KeyError (quoted ''content'')"
       and loads = "decoder_of [(''body'',
          JArr [row_with [reply_with ''alpha'', JObj [(''groundedContent'', JObj [])],
                          reply_with ''beta''],
                row_with [reply_with ''gamma'']])]"
       and body = "''body''"
       and before = "[]"
       and after = "[row_with [reply_with ''gamma'']]"
       and raw = heading]
  by (simp add: decoder_of_def row_replies_row_with model_text_reply_with fragments_def
        model_text_missing_content try_row_def)

text \<open>
  Claim C2, as stated: in a body that is an array whose every row has
  \<^verbatim>\<open>answer.replies[0].groundedContent.content.text\<close> equal to \<^verbatim>\<open>X\<close>, the output is the
  heading followed by \<^verbatim>\<open>X\n\<close> once per row. It fails on a row with a second reply: the
  loop adds the text of every reply of a row, not only of the first.
\<close>

theorem single_reply_rows_counterexample:
  "first_reply_text (row_with [reply_with ''X'', reply_with ''Y'']) = Inr (JStr ''X'')
   \<and> process_deep_research_response
        (decoder_of [(''body'', JArr [row_with [reply_with ''X'', reply_with ''Y'']])]) ''body''
      = Inr (heading @ ''X'' @ [CHR 0x0A] @ ''Y'' @ [CHR 0x0A])
   \<and> process_deep_research_response
        (decoder_of [(''body'', JArr [row_with [reply_with ''X'', reply_with ''Y'']])]) ''body''
      \<noteq> Inr (heading @ ''X'' @ [CHR 0x0A])"
  by (simp add: first_reply_text_def row_replies_row_with model_text_reply_with decoder_of_def
        process_deep_research_response_def json_loads_def try_row_def)

text \<open>
  Claim C2, amended: in a body that is an array whose every row has as
  \<^verbatim>\<open>answer.replies\<close> a list of exactly one reply, with
  \<^verbatim>\<open>groundedContent.content.text\<close> equal to the string \<^verbatim>\<open>X\<close>, the output is the heading
  followed by \<^verbatim>\<open>X\n\<close> once per row, in the order of the array.
\<close>

theorem single_reply_rows_output:
  assumes "loads body = Inr (JArr rows)"
      and "\<forall>row\<in>set rows. \<exists>reply. row_replies row = Inr (JArr [reply])
                               \<and> model_text reply = Inr (JStr X)"
  shows "process_deep_research_response loads body
           = Inr (heading @ concat (map (\<lambda>row. X @ [CHR 0x0A]) rows))"
proof -
  have step: "rows_loop rs raw = raw @ concat (map (\<lambda>row. X @ [CHR 0x0A]) rs)"
    if "\<forall>row\<in>set rs. \<exists>reply. row_replies row = Inr (JArr [reply])
                               \<and> model_text reply = Inr (JStr X)" for rs raw
    using that
  proof (induction rs arbitrary: raw)
    case Nil
    show ?case by simp
  next
    case (Cons r rs)
    then obtain reply where "row_replies r = Inr (JArr [reply])" "model_text reply = Inr (JStr X)"
      by auto
    then have "try_row r raw = (None, raw @ X @ [CHR 0x0A])"
      by (simp add: try_row_def)
    with Cons show ?case by simp
  qed
  from assms show ?thesis
    by (simp add: process_deep_research_response_def json_loads_def step)
qed

theorem single_reply_rows_output_witness:
  "process_deep_research_response
     (decoder_of [(''body'', JArr [row_with [reply_with ''X''], row_with [reply_with ''X'']])])
     ''body''
   = Inr (heading @ ''X'' @ [CHR 0x0A] @ ''X'' @ [CHR 0x0A])"
  using single_reply_rows_output
    [where loads = "decoder_of [(''body'', JArr [row_with [reply_with ''X''],
                                                 row_with [reply_with ''X'']])]"
       and body = "''body''"
       and rows = "[row_with [reply_with ''X''], row_with [reply_with ''X'']]"
       and X = "''X''"]
  by (simp add: decoder_of_def row_replies_row_with model_text_reply_with)

section \<open>Properties of the search tool\<close>

text \<open>
  Claim C1: when the search response has at least one result and the derived-struct
  data of the first result holds a non-empty \<^verbatim>\<open>extractive_answers\<close> list, the tool
  returns exactly the \<^verbatim>\<open>content\<close> of the first extractive answer of that result.
\<close>

theorem search_returns_first_content:
  assumes "new_search_client b None = None"
      and "client_search b (search_request search_query) = Inr (document_dict # others)"
      and "py_getitem_key document_dict ''derived_struct_data'' = Inr derived"
      and "py_getitem_key derived ''extractive_answers'' = Inr (JArr (answer # answers))"
      and "py_getitem_key answer ''content'' = Inr content"
  shows "get_search_response b search_query = Inr content"
  using assms by (simp add: get_search_response_def search_try_def)

theorem search_returns_first_content_witness:
  "get_search_response (example_backend (Inr []) (Inr [example_document, JObj []])) ''rates''
     = Inr (JStr ''first answer'')"
  using search_returns_first_content
    [where b = "example_backend (Inr []) (Inr [example_document, JObj []])"
       and search_query = "''rates''"
       and document_dict = example_document
       and others = "[JObj []]"
       and derived = example_derived
       and answer = example_answer
       and answers = "[JObj [(''pageNumber'', JStr ''7''), (''content'', JStr ''second answer'')]]"
       and content = "JStr ''first answer''"]
  by (simp add: example_backend_def example_document_def example_derived_def example_answer_def)

text \<open>
  Claim C6: when the results of the search response are empty, the tool raises an
  \<^verbatim>\<open>McpError\<close> of the internal-error category, not an unwrapped exception. The code
  does not: the IndexError of \<^verbatim>\<open>results[0]\<close> reaches \<^verbatim>\<open>except Exception\<close>, whose
  \<^verbatim>\<open>ErrorData(INTERNAL_ERROR, ...)\<close> raises TypeError, and that TypeError leaves the tool.
\<close>

theorem search_empty_results_unwrapped_type_error:
  assumes "new_search_client b None = None"
      and "client_search b (search_request search_query) = Inr []"
  shows "\<exists>m. get_search_response b search_query = Inl (Uncaught (TypeError m))"
  using assms
  by (auto simp: get_search_response_def search_try_def tool_except_def isinstance_def
        IndexError_def ErrorData_positional_def)

theorem search_empty_results_unwrapped_type_error_witness:
  "\<exists>m. get_search_response (example_backend (Inr []) (Inr [])) ''rates''
     = Inl (Uncaught (TypeError m))"
  using search_empty_results_unwrapped_type_error
    [where b = "example_backend (Inr []) (Inr [])" and search_query = "''rates''"]
  by (simp add: example_backend_def)

section \<open>Properties of the deep-research tool\<close>

lemma store_session_array:
  "store_session result_json env = Inr env' \<Longrightarrow> \<exists>x xs. result_json = JArr (x # xs)"
  by (cases result_json rule: py_getitem_0.cases)
     (auto simp: store_session_def split: sum.splits if_splits)

lemma process_after_store:
  assumes "json_loads loads body = Inr result_json"
      and "store_session result_json env = Inr env'"
  shows "process_deep_research_response loads body \<noteq> Inl e"
proof -
  from assms(2) obtain x xs where "result_json = JArr (x # xs)"
    using store_session_array by blast
  with assms(1) show ?thesis by (simp add: process_array)
qed

lemma deep_research_try_error_environ:
  assumes "deep_research_try loads b query start_new_session w = (Inl e, w')"
  shows "environ w' = environ w"
  using assms
  by (auto simp: deep_research_try_def Let_def process_after_store
           split: sum.splits if_splits)

lemma example_credentials: "get_auth_header (example_backend p s) =
  Inr [(''Authorization'', ''Bearer token''), (''Content-Type'', ''application/json; charset=UTF-8'')]"
  by (simp add: get_auth_header_def example_backend_def)

lemma example_http_post: "http_post (example_backend p s) request = p"
  by (simp add: example_backend_def)




text \<open>
  Claim C5: a call with \<^verbatim>\<open>start_new_session=False\<close> while the environment has no
  \<^verbatim>\<open>SESSION\<close> posts one request, and the dict of its body has no \<^verbatim>\<open>session\<close> key.
\<close>

theorem no_stored_session_no_session_key:
  assumes "environ w ''SESSION'' = None"
      and "credentials b = Inr token"
  shows "\<exists>request kvs.
           posted (snd (get_deep_research_response loads b query False w)) = posted w @ [request]
           \<and> post_data request = JObj kvs \<and> ''session'' \<notin> fst ` set kvs"
  using assms
  by (auto simp: get_deep_research_response_def deep_research_try_def Let_def get_auth_header_def
        deep_research_request_def stream_assist_request_def
           split: sum.splits prod.splits)

theorem no_stored_session_no_session_key_witness:
  "environ fresh_world ''SESSION'' = None
   \<and> (\<exists>request kvs.
         posted (snd (get_deep_research_response (decoder_of [(''body'', session_body)])
                        (example_backend (Inr ''body'') (Inr [])) ''plan a study'' False fresh_world))
           = posted fresh_world @ [request]
         \<and> post_data request = JObj kvs \<and> ''session'' \<notin> fst ` set kvs)"
  using no_stored_session_no_session_key
    [where w = fresh_world
       and b = "example_backend (Inr ''body'') (Inr [])"
       and token = "''token''"
       and loads = "decoder_of [(''body'', session_body)]"
       and query = "''plan a study''"]
  by (simp add: fresh_world_def example_backend_def)

text \<open>
  Claim C8, as stated: a call with \<^verbatim>\<open>start_new_session=False\<close> leaves \<^verbatim>\<open>SESSION\<close> as
  it was, only reading it and, if it is present, copying it into the request. The copy
  fails when \<^verbatim>\<open>SESSION\<close> is present and empty: \<^verbatim>\<open>if session:\<close> is false for the empty
  string, and the request goes out without a \<^verbatim>\<open>session\<close> key.
\<close>

theorem continue_session_empty_counterexample:
  "environ empty_session_world ''SESSION'' = Some []
   \<and> map post_data
        (posted (snd (get_deep_research_response (decoder_of [(''body'', session_body)])
                        (example_backend (Inr ''body'') (Inr [])) ''plan a study'' False
                        empty_session_world)))
      = [JObj [(''query'', JObj [(''text'', JStr ''plan a study'')]),
               (''answerGenerationMode'', JStr ''research'')]]"
  by (simp add: get_deep_research_response_def deep_research_try_def Let_def example_credentials
        example_http_post json_loads_def decoder_of_def session_body_def
        empty_session_world_def deep_research_request_def stream_assist_request_def
        split: sum.splits prod.splits)

text \<open>
  Claim C8, amended: a call with \<^verbatim>\<open>start_new_session=False\<close> leaves the environment,
  and so \<^verbatim>\<open>SESSION\<close>, as it was: it is only read, never written, and when it is present
  and not the empty string it is copied into the request that is posted.
\<close>

theorem continue_session_leaves_environ:
  assumes "start_new_session = False"
  shows "environ (snd (get_deep_research_response loads b query start_new_session w)) = environ w
       \<and> (credentials b = Inr token \<and> environ w ''SESSION'' = Some stored \<and> stored \<noteq> [] \<longrightarrow>
            (\<exists>request kvs.
               posted (snd (get_deep_research_response loads b query start_new_session w))
                 = posted w @ [request]
               \<and> post_data request = JObj kvs \<and> map_of kvs ''session'' = Some (JStr stored)))"
  using assms
  by (auto simp: get_deep_research_response_def deep_research_try_def Let_def get_auth_header_def
        deep_research_request_def stream_assist_request_def
           split: sum.splits prod.splits)

theorem continue_session_leaves_environ_witness:
  "environ (snd (get_deep_research_response (decoder_of [(''body'', session_body)])
                   (example_backend (Inr ''body'') (Inr [])) ''plan a study'' False example_world))
     ''SESSION'' = Some ''old-session''
   \<and> (\<exists>request kvs.
         posted (snd (get_deep_research_response (decoder_of [(''body'', session_body)])
                        (example_backend (Inr ''body'') (Inr [])) ''plan a study'' False example_world))
           = posted example_world @ [request]
         \<and> post_data request = JObj kvs \<and> map_of kvs ''session'' = Some (JStr ''old-session''))"
  using continue_session_leaves_environ
    [where start_new_session = False
       and loads = "decoder_of [(''body'', session_body)]"
       and b = "example_backend (Inr ''body'') (Inr [])"
       and query = "''plan a study''"
       and w = example_world
       and token = "''token''"
       and stored = "''old-session''"]
  by (simp add: example_world_def example_backend_def)

text \<open>
  Claim C9: a call with \<^verbatim>\<open>start_new_session=True\<close> that raises leaves the environment,
  and so \<^verbatim>\<open>SESSION\<close>, as it was. Every error of such a call comes before the
  assignment: once the session is stored the response is a list, and the rest of the
  call cannot raise.
\<close>

theorem failed_call_keeps_session:
  assumes "start_new_session = True"
      and "fst (get_deep_research_response loads b query start_new_session w) = Inl err"
  shows "environ (snd (get_deep_research_response loads b query start_new_session w)) = environ w"
proof (cases "deep_research_try loads b query start_new_session w")
  case (Pair r w')
  show ?thesis
  proof (cases r)
    case (Inl e)
    with Pair have "environ w' = environ w"
      by (simp add: deep_research_try_error_environ)
    with Pair Inl show ?thesis by (simp add: get_deep_research_response_def)
  next
    case (Inr s)
    with Pair assms(2) show ?thesis by (simp add: get_deep_research_response_def)
  qed
qed

lemma empty_array_call:
  "fst (get_deep_research_response (decoder_of [(''body'', JArr [])])
          (example_backend (Inr ''body'') (Inr [])) ''plan a study'' True example_world)
     = Inl (Uncaught (TypeError
              ''BaseModel.__init__() takes 1 positional argument but 3 were given''))"
  by (simp add: get_deep_research_response_def deep_research_try_def Let_def example_credentials
        example_http_post json_loads_def decoder_of_def store_session_def tool_except_def
        isinstance_def IndexError_def ErrorData_positional_def)

theorem failed_call_keeps_session_witness:
  "fst (get_deep_research_response (decoder_of [(''body'', JArr [])])
          (example_backend (Inr ''body'') (Inr [])) ''plan a study'' True example_world)
     = Inl (Uncaught (TypeError
              ''BaseModel.__init__() takes 1 positional argument but 3 were given''))
   \<and> environ (snd (get_deep_research_response (decoder_of [(''body'', JArr [])])
                     (example_backend (Inr ''body'') (Inr [])) ''plan a study'' True example_world))
       ''SESSION'' = Some ''old-session''"
  using failed_call_keeps_session
    [where start_new_session = True
       and loads = "decoder_of [(''body'', JArr [])]"
       and b = "example_backend (Inr ''body'') (Inr [])"
       and query = "''plan a study''"
       and w = example_world
       and err = "Uncaught (TypeError
              ''BaseModel.__init__() takes 1 positional argument but 3 were given'')"]
    empty_array_call
  by (simp add: example_world_def)

section \<open>Classification of the exceptions\<close>

text \<open>
  Exceptions that no handler meets: \<^verbatim>\<open>get_answer_response\<close> has no \<^verbatim>\<open>try\<close> and raises
  NameError on its first free name, and the handlers of the two tools do not catch an
  exception that is not an \<^verbatim>\<open>Exception\<close>.
\<close>

lemma unhandled_exceptions:
  "get_answer_response (example_backend (Inr []) (Inr [])) ''rates''
     = Inl (Uncaught (NameError (''name '' @ quoted ''location'' @ '' is not defined'')))
   \<and> get_search_response (example_backend (Inr []) (Inl KeyboardInterrupt)) ''rates''
     = Inl (Uncaught KeyboardInterrupt)"
  by (simp add: get_answer_response_def answer_body_def load_global_def module_globals_def
        get_search_response_def search_try_def example_backend_def tool_except_def
        isinstance_def KeyboardInterrupt_def)

text \<open>
  Claim C3: an exception raised inside a tool call leaves it as one of two categories,
  invalid-params for a ValueError and internal error for any other, and never as a
  third kind of failure. The code does not: in both tools every exception of class
  \<^verbatim>\<open>Exception\<close> raised in the body reaches a handler whose \<^verbatim>\<open>ErrorData(CODE, text)\<close>
  raises TypeError, and the tool raises that TypeError, whatever the class of the
  exception.
\<close>

theorem tool_exceptions_leave_as_type_error:
  assumes "isinstance e ''Exception''"
  shows "(search_try b search_query = Inl e \<longrightarrow>
            (\<exists>m. get_search_response b search_query = Inl (Uncaught (TypeError m))))
       \<and> (fst (deep_research_try loads b query start_new_session w) = Inl e \<longrightarrow>
            (\<exists>m. fst (get_deep_research_response loads b query start_new_session w)
                    = Inl (Uncaught (TypeError m))))"
  using assms
  by (auto simp: get_search_response_def get_deep_research_response_def tool_except_def
        ErrorData_positional_def split: prod.splits sum.splits)

theorem tool_exceptions_leave_as_type_error_witness:
  "(\<exists>m. get_search_response
            (example_backend (Inr ''not json'')
               (Inl (JSONDecodeError ''Expecting value: line 1 column 1 (char 0)'')))
            ''rates''
          = Inl (Uncaught (TypeError m)))
   \<and> (\<exists>m. fst (get_deep_research_response (decoder_of [])
                   (example_backend (Inr ''not json'')
                      (Inl (JSONDecodeError ''Expecting value: line 1 column 1 (char 0)'')))
                   ''plan a study'' False fresh_world)
          = Inl (Uncaught (TypeError m)))"
  using tool_exceptions_leave_as_type_error
    [where e = "JSONDecodeError ''Expecting value: line 1 column 1 (char 0)''"
       and b = "example_backend (Inr ''not json'') (Inl (JSONDecodeError ''Expecting value: line 1 column 1 (char 0)''))"
       and search_query = "''rates''"
       and loads = "decoder_of []"
       and query = "''plan a study''"
       and start_new_session = False
       and w = fresh_world]
  by (simp add: isinstance_def JSONDecodeError_def search_try_def example_backend_def
        deep_research_try_def Let_def get_auth_header_def json_loads_def decoder_of_def)

end
